theory Spec2Isabelle
  imports Complex_Main
begin

section \<open>Python values and errors\<close>

text \<open>
  The script \<^verbatim>\<open>code_challenge.py\<close> is dynamically typed: every helper starts with
  \<^verbatim>\<open>isinstance\<close> checks on its arguments. The values a caller can pass are therefore
  one datatype, and each check is a case distinction on its constructor.

  A pandas DataFrame is an ordered list of column names and an ordered list of rows;
  \<^verbatim>\<open>len(df)\<close> is the number of rows and \<^verbatim>\<open>pd.DataFrame()\<close> has neither columns nor rows.
\<close>

datatype cell = CNull | CInt int | CStr string

record dataframe =
  columns :: "string list"
  rows :: "cell list list"

datatype pyval =
    PyNone
  | PyBool bool
  | PyInt int
  | PyStr string
  | PyTuple "pyval list"
  | PyList "pyval list"
  | PyDataFrame dataframe

text \<open>
  Every exception the helpers raise on purpose is a \<^verbatim>\<open>ValueError\<close> with a message.
  A \<^verbatim>\<open>NameError\<close> is what Python raises when a name that was never bound is looked up;
  \<open>OtherError\<close> is any further exception, by its text.
\<close>

datatype error = ValueError string | NameError string | OtherError string

definition empty_dataframe :: dataframe where
  "empty_dataframe = \<lparr>columns = [], rows = []\<rparr>"

section \<open>Query composer\<close>

text \<open>
  An f-string field \<^verbatim>\<open>{x}\<close> is \<^verbatim>\<open>format(x, "")\<close>: a \<^verbatim>\<open>str\<close> is inserted as it is, any
  other object through its own \<^verbatim>\<open>__str__\<close>, which returns a text or raises (an \<^verbatim>\<open>int\<close>
  of more than 4300 digits raises a \<^verbatim>\<open>ValueError\<close>, for one). That conversion belongs to
  the Python runtime and to pandas, not to the script, so it is the parameter \<open>str_of\<close>
  of the composer, with \<open>Inl\<close> for the exception.
\<close>

type_synonym str_conversion = "pyval \<Rightarrow> error + string"

fun format_value :: "str_conversion \<Rightarrow> pyval \<Rightarrow> error + string" where
  "format_value str_of (PyStr s) = Inr s"
| "format_value str_of v = str_of v"

text \<open>
  \<open>str_none\<close> is the text of \<^verbatim>\<open>str(None)\<close>; it stands in for \<open>str_of\<close> at the concrete
  inputs below, whose only object that is not a \<^verbatim>\<open>str\<close> is \<^verbatim>\<open>None\<close>.
\<close>

definition str_none :: str_conversion where
  "str_none v = Inr ''None''"

text \<open>\<^verbatim>\<open>sep.join(xs)\<close> on a list of strings.\<close>

fun join :: "string \<Rightarrow> string list \<Rightarrow> string" where
  "join sep [] = []"
| "join sep [x] = x"
| "join sep (x # y # ys) = x @ sep @ join sep (y # ys)"

text \<open>
  \<^verbatim>\<open>build_qry(tup)\<close>: the guard \<^verbatim>\<open>not isinstance(tup, tuple) or len(tup) != 2\<close> raises;
  otherwise the tuple is unpacked and formatted, the fields of the f-string from left to
  right. An exception of a field's conversion leaves the function.
\<close>

fun build_qry :: "str_conversion \<Rightarrow> pyval \<Rightarrow> error + string" where
  "build_qry str_of (PyTuple [name, query]) =
     (case format_value str_of name of
        Inl e \<Rightarrow> Inl e
      | Inr alias \<Rightarrow>
          (case format_value str_of query of
             Inl e \<Rightarrow> Inl e
           | Inr body \<Rightarrow> Inr (alias @ '' AS ('' @ body @ '')'')))"
| "build_qry str_of tup =
     Inl (ValueError ''Input must be a tuple with two elements: (alias, query).'')"

text \<open>The test \<^verbatim>\<open>isinstance(i, tuple) and len(i) == 2\<close> of \<^verbatim>\<open>build_seq_qrys\<close>.\<close>

fun is_pair :: "pyval \<Rightarrow> bool" where
  "is_pair (PyTuple xs) = (length xs = 2)"
| "is_pair v = False"

text \<open>
  A list comprehension whose body may raise: the first exception leaves the
  comprehension, otherwise the results are collected in order.
\<close>

fun comprehension :: "('a \<Rightarrow> error + 'b) \<Rightarrow> 'a list \<Rightarrow> error + 'b list" where
  "comprehension f [] = Inr []"
| "comprehension f (x # xs) =
     (case f x of
        Inl e \<Rightarrow> Inl e
      | Inr y \<Rightarrow> (case comprehension f xs of Inl e \<Rightarrow> Inl e | Inr ys \<Rightarrow> Inr (y # ys)))"

fun build_seq_qrys :: "str_conversion \<Rightarrow> pyval \<Rightarrow> error + string" where
  "build_seq_qrys str_of (PyList list_queries) =
     (if \<not> list_all is_pair list_queries
      then Inl (ValueError
        ''Input must be a list of tuples with two elements each: (alias, query).'')
      else (case comprehension (build_qry str_of) list_queries of
              Inl e \<Rightarrow> Inl e
            | Inr qs \<Rightarrow> Inr (join '','' qs)))"
| "build_seq_qrys str_of v =
     Inl (ValueError
       ''Input must be a list of tuples with two elements each: (alias, query).'')"

text \<open>
  \<^verbatim>\<open>build_CTE\<close> checks \<^verbatim>\<open>return_qry\<close> first, then composes the sequence (whose
  exception propagates), then formats.
\<close>

fun build_CTE :: "str_conversion \<Rightarrow> pyval \<Rightarrow> pyval \<Rightarrow> error + string" where
  "build_CTE str_of list_queries (PyStr return_qry) =
     (case build_seq_qrys str_of list_queries of
        Inl e \<Rightarrow> Inl e
      | Inr seq_qrys \<Rightarrow> Inr (''WITH '' @ seq_qrys @ '' '' @ return_qry @ '';''))"
| "build_CTE str_of list_queries v = Inl (ValueError ''return_qry must be a string.'')"

text \<open>
  The caller's side of the composer: a list of (alias, body) pairs of strings, as the
  Python list of 2-tuples that is passed in.
\<close>

definition fragment :: "string \<times> string \<Rightarrow> pyval" where
  "fragment p = PyTuple [PyStr (fst p), PyStr (snd p)]"

definition fragments :: "(string \<times> string) list \<Rightarrow> pyval" where
  "fragments ps = PyList (map fragment ps)"

text \<open>
  The specification's words for the composed statement: each fragment rendered as
  \<open>alias AS (body)\<close>, the renderings separated by commas, between \<open>WITH\<close> and the final
  query.
\<close>

definition rendered :: "string \<times> string \<Rightarrow> string" where
  "rendered p = fst p @ '' AS ('' @ snd p @ '')''"

definition comma_separated :: "string list \<Rightarrow> string" where
  "comma_separated xs =
     (case xs of [] \<Rightarrow> [] | x # rest \<Rightarrow> x @ concat (map (\<lambda>y. '','' @ y) rest))"

definition composed_statement :: "(string \<times> string) list \<Rightarrow> string \<Rightarrow> string" where
  "composed_statement ps final =
     ''WITH '' @ comma_separated (map rendered ps) @ '' '' @ final @ '';''"

text \<open>The two guards of the composer, as predicates on the argument.\<close>

fun is_str :: "pyval \<Rightarrow> bool" where
  "is_str (PyStr s) = True"
| "is_str v = False"

fun list_of_pairs :: "pyval \<Rightarrow> bool" where
  "list_of_pairs (PyList xs) = list_all is_pair xs"
| "list_of_pairs v = False"

section \<open>Query executor\<close>

text \<open>
  The warehouse is an external collaborator: \<^verbatim>\<open>session.sql(query).to_pandas()\<close> either
  returns a table or raises an exception, of which the script uses only the text
  (\<^verbatim>\<open>{e}\<close> in the message). It is the parameter \<open>sql\<close>, with \<open>Inl\<close> for the exception's
  text. Only exceptions below \<^verbatim>\<open>Exception\<close> are considered, those that the clause
  \<^verbatim>\<open>except Exception\<close> catches.

  What the executor does beyond returning is recorded in the state it passes on: the
  queries sent to the warehouse and the errors reported with \<^verbatim>\<open>st.error\<close>.

  \<^verbatim>\<open>fetch_data\<close> is the body of the decorated function, that is, a call that the
  framework's \<^verbatim>\<open>st.cache_data\<close> store does not answer by itself.
\<close>

type_synonym warehouse = "string \<Rightarrow> string + dataframe"

record world =
  sent :: "string list"
  reported :: "string list"

fun fetch_data :: "warehouse \<Rightarrow> pyval \<Rightarrow> world \<Rightarrow> (error + dataframe) \<times> world" where
  "fetch_data sql (PyStr query) w =
     (case sql query of
        Inr df \<Rightarrow> (Inr df, w\<lparr>sent := sent w @ [query]\<rparr>)
      | Inl e \<Rightarrow>
          (Inr empty_dataframe,
           w\<lparr>sent := sent w @ [query],
             reported := reported w @ [''Error executing query: '' @ e]\<rparr>))"
| "fetch_data sql query w = (Inl (ValueError ''Query must be a string.''), w)"

definition get_query_result ::
  "str_conversion \<Rightarrow> warehouse \<Rightarrow> pyval \<Rightarrow> pyval \<Rightarrow> world \<Rightarrow> (error + dataframe) \<times> world"
where
  "get_query_result str_of sql query_list result_query w =
     (case build_CTE str_of query_list result_query of
        Inl e \<Rightarrow> (Inl e, w)
      | Inr q \<Rightarrow> fetch_data sql (PyStr q) w)"

text \<open>Two warehouses for concrete runs: one that is down, one that answers every query.\<close>

definition warehouse_down :: warehouse where
  "warehouse_down q = Inl ''connection lost''"

definition warehouse_up :: warehouse where
  "warehouse_up q = Inr \<lparr>columns = [''N''], rows = [[CInt 1]]\<rparr>"

section \<open>Pagination\<close>

text \<open>
  \<^verbatim>\<open>xs[start:stop]\<close> and \<^verbatim>\<open>df.iloc[start:stop]\<close>: a negative bound counts from the end,
  and both bounds are cut to the length; nothing is raised out of range.
\<close>

definition slice_bound :: "int \<Rightarrow> nat \<Rightarrow> nat" where
  "slice_bound i n = (if i < 0 then nat (max 0 (i + int n)) else min (nat i) n)"

definition py_slice :: "'a list \<Rightarrow> int \<Rightarrow> int \<Rightarrow> 'a list" where
  "py_slice xs start stop =
     (let a = slice_bound start (length xs); b = slice_bound stop (length xs)
      in take (b - a) (drop a xs))"

definition iloc :: "dataframe \<Rightarrow> int \<Rightarrow> int \<Rightarrow> dataframe" where
  "iloc df start stop = df\<lparr>rows := py_slice (rows df) start stop\<rparr>"

definition page_size :: int where
  "page_size = 5"

definition total_pages :: "dataframe \<Rightarrow> int" where
  "total_pages df = int (length (rows df)) div page_size"

text \<open>
  \<^verbatim>\<open>show_grid\<close> returns nothing in Python. What it does is two calls of the framework:
  \<^verbatim>\<open>st.number_input\<close>, with the bounds \<^verbatim>\<open>min_value\<close> and \<^verbatim>\<open>max_value\<close> (the label,
  \<^verbatim>\<open>step=1\<close> and \<^verbatim>\<open>value=1\<close> are constants), and \<^verbatim>\<open>st.dataframe\<close>, with the slice.
  The number that the widget returns is the user's and is the argument \<open>page_number\<close>;
  whatever it is, the slice is computed from it and displayed. The result records the
  bounds given to the widget and the table given to \<^verbatim>\<open>st.dataframe\<close>.
\<close>

record grid =
  min_value :: int
  max_value :: int
  displayed :: dataframe

fun show_grid :: "pyval \<Rightarrow> int \<Rightarrow> error + grid" where
  "show_grid (PyDataFrame df) page_number =
     (let start_idx = (page_number - 1) * page_size;
          end_idx = start_idx + page_size
      in Inr \<lparr>min_value = 1, max_value = total_pages df + 1,
               displayed = iloc df start_idx end_idx\<rparr>)"
| "show_grid df page_number = Inl (ValueError ''Input must be a Pandas DataFrame.'')"

text \<open>
  The widget returns only numbers from \<^verbatim>\<open>min_value\<close> to \<^verbatim>\<open>max_value\<close>. A page number
  is admissible for a table when it lies within the bounds that \<open>show_grid\<close> gives to
  the widget for that table.
\<close>

definition admissible :: "pyval \<Rightarrow> int \<Rightarrow> bool" where
  "admissible df p =
     (case show_grid df p of
        Inl e \<Rightarrow> False
      | Inr g \<Rightarrow> min_value g \<le> p \<and> p \<le> max_value g)"

text \<open>
  The specification's words for the slice: the rows whose index lies in the half-open
  interval from \<open>lo\<close> to \<open>hi\<close>, in order.
\<close>

definition rows_between :: "int \<Rightarrow> int \<Rightarrow> 'a list \<Rightarrow> 'a list" where
  "rows_between lo hi xs =
     map (nth xs) (filter (\<lambda>i. lo \<le> int i \<and> int i < hi) [0..<length xs])"

text \<open>The number of rows that a call of \<open>show_grid\<close> displays; \<open>None\<close> when it raises.\<close>

definition shown_rows :: "error + grid \<Rightarrow> nat option" where
  "shown_rows r = (case r of Inl e \<Rightarrow> None | Inr g \<Rightarrow> Some (length (rows (displayed g))))"

text \<open>Tables of two, five and twelve rows.\<close>

definition two_rows :: dataframe where
  "two_rows = \<lparr>columns = [''N''], rows = [[CInt 1], [CInt 2]]\<rparr>"

definition five_rows :: dataframe where
  "five_rows =
     \<lparr>columns = [''N''], rows = [[CInt 1], [CInt 2], [CInt 3], [CInt 4], [CInt 5]]\<rparr>"


definition twelve_rows :: dataframe where
  "twelve_rows =
     \<lparr>columns = [''N''],
      rows = [[CInt 1], [CInt 2], [CInt 3], [CInt 4], [CInt 5], [CInt 6],
              [CInt 7], [CInt 8], [CInt 9], [CInt 10], [CInt 11], [CInt 12]]\<rparr>"

section \<open>Result cache\<close>

text \<open>
  \<^verbatim>\<open>st.session_state\<close> is the framework's dictionary from strings to objects. Its
  membership test and its store raise for some keys (Streamlit keeps the keys that
  begin with \<open>$$ID\<close> for its widgets, for one). Which keys are refused is the
  framework's matter and is a parameter here: \<open>contains_raises\<close> for the test
  \<^verbatim>\<open>df_name not in st.session_state\<close>, \<open>setitem_raises\<close> for the store.
\<close>

type_synonym session_state = "string \<rightharpoonup> pyval"

record session_api =
  contains_raises :: "string \<Rightarrow> bool"
  setitem_raises :: "string \<Rightarrow> bool"

text \<open>The keys that begin with \<open>$$ID\<close> are refused by both operations.\<close>

definition reserved_ids :: session_api where
  "reserved_ids =
     \<lparr>contains_raises = (\<lambda>k. take 4 k = ''$$ID''),
      setitem_raises = (\<lambda>k. take 4 k = ''$$ID'')\<rparr>"

text \<open>
  \<^verbatim>\<open>cache_df\<close> checks the name, then the table; then, inside \<^verbatim>\<open>try\<close>, it stores the
  table unless the name is already a key. An exception of the session state is caught
  by \<^verbatim>\<open>except Exception\<close>, whose first statement is \<^verbatim>\<open>logging.error(...)\<close>. The script
  never imports \<^verbatim>\<open>logging\<close>, so that statement raises a \<^verbatim>\<open>NameError\<close>, which leaves
  the function; \<^verbatim>\<open>st.error\<close> is not reached. Nothing has been stored then.
\<close>

definition handler :: "error + session_state" where
  "handler = Inl (NameError ''name 'logging' is not defined'')"

fun cache_df :: "session_api \<Rightarrow> pyval \<Rightarrow> pyval \<Rightarrow> session_state \<Rightarrow> error + session_state" where
  "cache_df api (PyStr df_name) (PyDataFrame df) st =
     (if contains_raises api df_name then handler
      else (case st df_name of
              Some v \<Rightarrow> Inr st
            | None \<Rightarrow>
                if setitem_raises api df_name then handler
                else Inr (st(df_name \<mapsto> PyDataFrame df))))"
| "cache_df api (PyStr df_name) df st = Inl (ValueError ''df must be a Pandas DataFrame.'')"
| "cache_df api df_name df st = Inl (ValueError ''df_name must be a string.'')"

text \<open>
  A session makes its \<^verbatim>\<open>cache_df\<close> calls one after the other. A call that raises
  ends the run and leaves the session state as it found it.
\<close>

fun cache_calls ::
  "session_api \<Rightarrow> (pyval \<times> pyval) list \<Rightarrow> session_state \<Rightarrow> error option \<times> session_state"
where
  "cache_calls api [] st = (None, st)"
| "cache_calls api (c # cs) st =
     (case cache_df api (fst c) (snd c) st of
        Inl e \<Rightarrow> (Some e, st)
      | Inr st' \<Rightarrow> cache_calls api cs st')"

section \<open>Properties of the composer\<close>

subsection \<open>Lemmas\<close>

lemma join_concat:
  "join sep xs = (case xs of [] \<Rightarrow> [] | x # rest \<Rightarrow> x @ concat (map (\<lambda>y. sep @ y) rest))"
  by (induction sep xs rule: join.induct) simp_all

lemma join_comma_separated: "join '','' xs = comma_separated xs"
  by (simp add: join_concat comma_separated_def)

lemma build_qry_fragment: "build_qry str_of (fragment p) = Inr (rendered p)"
  by (simp add: fragment_def rendered_def)

lemma is_pair_fragment: "is_pair (fragment p)"
  by (simp add: fragment_def)

lemma list_all_is_pair_fragments: "list_all is_pair (map fragment ps)"
  by (induction ps) (simp_all add: is_pair_fragment)

lemma comprehension_fragments:
  "comprehension (build_qry str_of) (map fragment ps) = Inr (map rendered ps)"
  by (induction ps) (simp_all add: build_qry_fragment)

lemma build_seq_qrys_fragments:
  "build_seq_qrys str_of (fragments ps) = Inr (comma_separated (map rendered ps))"
  by (simp add: fragments_def list_all_is_pair_fragments comprehension_fragments
      join_comma_separated)

lemma build_qry_not_pair:
  "\<not> is_pair tup \<Longrightarrow> build_qry str_of tup =
     Inl (ValueError ''Input must be a tuple with two elements: (alias, query).'')"
  by (induction str_of tup rule: build_qry.induct) simp_all

lemma build_seq_qrys_not_list_of_pairs:
  "\<not> list_of_pairs v \<Longrightarrow> build_seq_qrys str_of v = Inl (ValueError
     ''Input must be a list of tuples with two elements each: (alias, query).'')"
  by (cases v) simp_all

subsection \<open>Claims\<close>

text \<open>
  C1. For every list of (alias, body) fragments and every final query string,
  \<^verbatim>\<open>build_CTE\<close> returns exactly \<open>WITH\<close>, a space, the fragments each rendered as
  \<open>alias AS (body)\<close> and joined with commas, a space, the final query and a semicolon;
  and \<^verbatim>\<open>build_CTE([("A","SELECT 1")], "SELECT * FROM A")\<close> is
  \<open>WITH A AS (SELECT 1) SELECT * FROM A;\<close>.
\<close>

theorem build_CTE_composes:
  "build_CTE str_of (fragments ps) (PyStr final) = Inr (composed_statement ps final)
   \<and> build_CTE str_of (fragments [(''A'', ''SELECT 1'')]) (PyStr ''SELECT * FROM A'')
       = Inr ''WITH A AS (SELECT 1) SELECT * FROM A;''"
  by (simp add: build_seq_qrys_fragments composed_statement_def comma_separated_def
      rendered_def)

theorem build_CTE_composes_witness:
  "build_CTE str_none (fragments [(''A'', ''SELECT 1''), (''B'', ''SELECT 2'')])
     (PyStr ''SELECT * FROM B'')
   = Inr ''WITH A AS (SELECT 1),B AS (SELECT 2) SELECT * FROM B;''"
  using build_CTE_composes [of str_none "[(''A'', ''SELECT 1''), (''B'', ''SELECT 2'')]"
      "''SELECT * FROM B''"]
  by (simp add: composed_statement_def comma_separated_def rendered_def)

text \<open>
  C2, as the code has it. \<^verbatim>\<open>build_seq_qrys\<close> raises the \<^verbatim>\<open>ValueError\<close> when its
  argument is not a list of 2-tuples. The empty list is such a list and is accepted: it
  yields the empty string, and \<^verbatim>\<open>build_CTE([], q)\<close> returns \<open>WITH\<close>, two spaces, \<open>q\<close> and
  a semicolon.
\<close>

theorem build_seq_qrys_empty_accepted:
  "(\<not> list_of_pairs v \<longrightarrow>
        build_seq_qrys str_of v = Inl (ValueError
          ''Input must be a list of tuples with two elements each: (alias, query).''))
   \<and> build_seq_qrys str_of (PyList []) = Inr []
   \<and> build_CTE str_of (PyList []) (PyStr final) = Inr (''WITH  '' @ final @ '';'')"
  using build_seq_qrys_not_list_of_pairs [of v str_of] by simp

theorem build_seq_qrys_empty_accepted_witness:
  "\<not> list_of_pairs (PyList [PyStr ''A''])
   \<and> build_seq_qrys str_none (PyList [PyStr ''A'']) = Inl (ValueError
        ''Input must be a list of tuples with two elements each: (alias, query).'')
   \<and> build_seq_qrys str_none (PyList []) = Inr []
   \<and> build_CTE str_none (PyList []) (PyStr ''SELECT 1'') = Inr ''WITH  SELECT 1;''"
  using build_seq_qrys_empty_accepted [of "PyList [PyStr ''A'']" str_none "''SELECT 1''"]
  by simp

theorem build_CTE_empty_list_counterexample:
  "build_seq_qrys str_none (PyList []) = Inr []
   \<and> build_CTE str_none (PyList []) (PyStr ''SELECT 1'') = Inr ''WITH  SELECT 1;''"
  by simp

text \<open>
  C4, as the code has it. \<^verbatim>\<open>build_qry\<close> raises the \<^verbatim>\<open>ValueError\<close> when its argument
  is not a tuple of two elements. An empty alias and a body that is not a string do not
  make it raise: with the empty alias and a string body the fragment starts with the
  space before \<open>AS\<close>, and a body that is not a string is inserted as the text that its
  \<^verbatim>\<open>str\<close> conversion returns.
\<close>

theorem build_qry_raises_only_on_shape:
  "(\<not> is_pair tup \<longrightarrow> build_qry str_of tup =
        Inl (ValueError ''Input must be a tuple with two elements: (alias, query).''))
   \<and> build_qry str_of (PyTuple [PyStr [], PyStr body]) = Inr ('' AS ('' @ body @ '')'')
   \<and> (\<not> is_str query \<and> str_of query = Inr t \<longrightarrow>
        build_qry str_of (PyTuple [PyStr alias, query]) = Inr (alias @ '' AS ('' @ t @ '')''))"
proof -
  have "build_qry str_of (PyTuple [PyStr alias, query]) = Inr (alias @ '' AS ('' @ t @ '')'')"
    if "\<not> is_str query" and "str_of query = Inr t"
    using that by (cases query) simp_all
  then show ?thesis
    using build_qry_not_pair [of tup str_of] by simp
qed

theorem build_qry_raises_only_on_shape_witness:
  "\<not> is_pair (PyTuple [PyStr ''A''])
   \<and> build_qry str_none (PyTuple [PyStr ''A'']) =
       Inl (ValueError ''Input must be a tuple with two elements: (alias, query).'')
   \<and> build_qry str_none (PyTuple [PyStr [], PyStr ''SELECT 1'']) = Inr '' AS (SELECT 1)''
   \<and> \<not> is_str PyNone \<and> str_none PyNone = Inr ''None''
   \<and> build_qry str_none (PyTuple [PyStr ''A'', PyNone]) = Inr ''A AS (None)''"
  using build_qry_raises_only_on_shape
      [of "PyTuple [PyStr ''A'']" str_none "''SELECT 1''" PyNone "''None''" "''A''"]
  by (simp add: str_none_def)

theorem build_qry_empty_alias_counterexample:
  "build_qry str_none (PyTuple [PyStr [], PyStr ''SELECT 1'']) = Inr '' AS (SELECT 1)''
   \<and> build_qry str_none (PyTuple [PyStr ''A'', PyNone]) = Inr ''A AS (None)''"
  by (simp add: str_none_def)

text \<open>
  C5, as the code has it. \<^verbatim>\<open>build_CTE\<close> raises, for every fragment list, whenever the
  final query is not a string. The empty string is a string: with it and a list of
  fragments the statement is composed as usual and ends in a space and a semicolon.
\<close>

theorem build_CTE_raises_on_non_string:
  "(\<not> is_str return_qry \<longrightarrow>
      build_CTE str_of list_queries return_qry = Inl (ValueError ''return_qry must be a string.''))
   \<and> build_CTE str_of (fragments ps) (PyStr []) =
       Inr (''WITH '' @ comma_separated (map rendered ps) @ '' ;'')"
proof -
  have "build_CTE str_of list_queries return_qry =
      Inl (ValueError ''return_qry must be a string.'')" if "\<not> is_str return_qry"
    using that by (cases return_qry) simp_all
  then show ?thesis
    by (simp add: build_seq_qrys_fragments)
qed

theorem build_CTE_raises_on_non_string_witness:
  "\<not> is_str PyNone
   \<and> build_CTE str_none (fragments [(''A'', ''SELECT 1'')]) PyNone =
       Inl (ValueError ''return_qry must be a string.'')
   \<and> build_CTE str_none (fragments [(''A'', ''SELECT 1'')]) (PyStr []) =
       Inr ''WITH A AS (SELECT 1) ;''"
  using build_CTE_raises_on_non_string
      [of PyNone str_none "fragments [(''A'', ''SELECT 1'')]" "[(''A'', ''SELECT 1'')]"]
  by (simp add: comma_separated_def rendered_def)

theorem build_CTE_empty_final_counterexample:
  "build_CTE str_none (fragments [(''A'', ''SELECT 1'')]) (PyStr []) =
     Inr ''WITH A AS (SELECT 1) ;''"
  by (simp add: fragments_def fragment_def)

section \<open>Properties of the executor\<close>

text \<open>
  C6. For every string query, when the warehouse call raises, \<^verbatim>\<open>fetch_data\<close> does not
  raise: it reports the error with \<^verbatim>\<open>st.error\<close> and returns the empty table. So a
  statement composed from any number of fragments whose execution fails gives the empty
  table through \<^verbatim>\<open>get_query_result\<close>.
\<close>

theorem fetch_data_failure_gives_empty_table:
  "(sql query = Inl e \<longrightarrow>
      fetch_data sql (PyStr query) w =
        (Inr empty_dataframe,
         w\<lparr>sent := sent w @ [query],
           reported := reported w @ [''Error executing query: '' @ e]\<rparr>))
   \<and> (sql (composed_statement ps final) = Inl e \<longrightarrow>
      get_query_result str_of sql (fragments ps) (PyStr final) w =
        (Inr empty_dataframe,
         w\<lparr>sent := sent w @ [composed_statement ps final],
           reported := reported w @ [''Error executing query: '' @ e]\<rparr>))"
  by (simp add: get_query_result_def build_seq_qrys_fragments composed_statement_def)

theorem fetch_data_failure_gives_empty_table_witness:
  "warehouse_down ''SELECT 1'' = Inl ''connection lost''
   \<and> fetch_data warehouse_down (PyStr ''SELECT 1'') \<lparr>sent = [], reported = []\<rparr> =
       (Inr \<lparr>columns = [], rows = []\<rparr>,
        \<lparr>sent = [''SELECT 1''], reported = [''Error executing query: connection lost'']\<rparr>)
   \<and> get_query_result str_none warehouse_down (fragments [(''A'', ''SELECT 1'')])
         (PyStr ''SELECT * FROM A'') \<lparr>sent = [], reported = []\<rparr> =
       (Inr \<lparr>columns = [], rows = []\<rparr>,
        \<lparr>sent = [''WITH A AS (SELECT 1) SELECT * FROM A;''],
         reported = [''Error executing query: connection lost'']\<rparr>)"
  using fetch_data_failure_gives_empty_table
    [of warehouse_down "''SELECT 1''" "''connection lost''" "\<lparr>sent = [], reported = []\<rparr>"
       "[(''A'', ''SELECT 1'')]" "''SELECT * FROM A''" str_none]
  by (simp add: warehouse_down_def empty_dataframe_def composed_statement_def
      comma_separated_def rendered_def)

text \<open>
  C9. For every argument that is not a string, \<^verbatim>\<open>fetch_data\<close> raises the
  \<^verbatim>\<open>ValueError\<close> "Query must be a string." and nothing has been sent to the warehouse
  (nor reported) when it does.
\<close>

theorem fetch_data_rejects_non_string:
  "\<not> is_str query \<longrightarrow>
     fetch_data sql query w = (Inl (ValueError ''Query must be a string.''), w)
     \<and> sent (snd (fetch_data sql query w)) = sent w"
proof
  assume "\<not> is_str query"
  then have "fetch_data sql query w = (Inl (ValueError ''Query must be a string.''), w)"
    by (cases query) simp_all
  then show "fetch_data sql query w = (Inl (ValueError ''Query must be a string.''), w)
     \<and> sent (snd (fetch_data sql query w)) = sent w"
    by simp
qed

theorem fetch_data_rejects_non_string_witness:
  "\<not> is_str (PyInt 7)
   \<and> fetch_data warehouse_up (PyInt 7) \<lparr>sent = [], reported = []\<rparr> =
       (Inl (ValueError ''Query must be a string.''), \<lparr>sent = [], reported = []\<rparr>)
   \<and> sent (snd (fetch_data warehouse_up (PyInt 7) \<lparr>sent = [], reported = []\<rparr>)) = []"
  using fetch_data_rejects_non_string [of "PyInt 7" warehouse_up "\<lparr>sent = [], reported = []\<rparr>"]
  by simp

section \<open>Properties of pagination\<close>

subsection \<open>Lemmas\<close>

lemma filter_upt_interval:
  "filter (\<lambda>i. a \<le> i \<and> i < b) [0..<n] = [a..<min b n]"
proof (induction n)
  case 0 show ?case by simp
next
  case (Suc n)
  show ?case
  proof (cases "n < b")
    case True
    then have m: "min b n = n" "min b (Suc n) = Suc n" by simp_all
    show ?thesis using Suc True unfolding m by (cases "a \<le> n") simp_all
  next
    case False
    then have m: "min b n = b" "min b (Suc n) = b" by simp_all
    show ?thesis using Suc False unfolding m by simp
  qed
qed

lemma map_nth_upt_take_drop:
  "map (nth xs) [a..<min b (length xs)] = take (b - a) (drop a xs)"
proof (rule nth_equalityI)
  show "length (map (nth xs) [a..<min b (length xs)]) = length (take (b - a) (drop a xs))"
    by (auto simp: min_def)
next
  fix i assume "i < length (map (nth xs) [a..<min b (length xs)])"
  then have i: "i < min b (length xs) - a" by simp
  then have "i < b - a" "a + i < length xs" by simp_all
  then show "map (nth xs) [a..<min b (length xs)] ! i = take (b - a) (drop a xs) ! i"
    using i by simp
qed

lemma rows_between_take_drop:
  assumes "0 \<le> lo"
  shows "rows_between lo hi xs = take (nat hi - nat lo) (drop (nat lo) xs)"
proof -
  have "(\<lambda>i. lo \<le> int i \<and> int i < hi) = (\<lambda>i. nat lo \<le> i \<and> i < nat hi)"
    using assms by (intro ext) linarith
  then show ?thesis
    unfolding rows_between_def
    by (simp only: filter_upt_interval map_nth_upt_take_drop)
qed

lemma py_slice_rows_between:
  assumes "0 \<le> lo" and "0 \<le> hi"
  shows "py_slice xs lo hi = rows_between lo hi xs"
proof -
  have "take (min (nat hi) (length xs) - min (nat lo) (length xs)) (drop (min (nat lo) (length xs)) xs)
      = take (nat hi - nat lo) (drop (nat lo) xs)"
    by (cases "nat lo \<le> length xs") (simp_all add: min_def)
  then show ?thesis
    using assms by (simp add: py_slice_def slice_bound_def rows_between_take_drop Let_def)
qed

lemma total_pages_floor:
  "total_pages df = \<lfloor>real (length (rows df)) / real_of_int page_size\<rfloor>"
  unfolding total_pages_def
  by (metis floor_divide_of_int_eq of_int_of_nat_eq)

lemma total_pages_bounds:
  "total_pages df * page_size \<le> int (length (rows df))"
  "int (length (rows df)) < (total_pages df + 1) * page_size"
  by (simp_all add: total_pages_def page_size_def)

lemma total_pages_nonneg: "0 \<le> total_pages df"
  by (simp add: total_pages_def page_size_def)

lemma show_grid_page:
  assumes "1 \<le> p"
  shows "show_grid (PyDataFrame df) p =
    Inr \<lparr>min_value = 1, max_value = total_pages df + 1,
         displayed = df\<lparr>rows := rows_between ((p - 1) * page_size) (p * page_size) (rows df)\<rparr>\<rparr>"
proof -
  have lo: "0 \<le> (p - 1) * page_size" and hi: "0 \<le> (p - 1) * page_size + page_size"
    using assms by (simp_all add: page_size_def)
  have "(p - 1) * page_size + page_size = p * page_size"
    by (simp add: algebra_simps)
  with py_slice_rows_between [OF lo hi, of "rows df"] show ?thesis
    by (simp add: iloc_def Let_def)
qed

lemma admissible_iff:
  "admissible (PyDataFrame df) p = (1 \<le> p \<and> p \<le> total_pages df + 1)"
  by (simp add: admissible_def Let_def)

lemma rows_between_beyond:
  assumes "int (length xs) \<le> lo"
  shows "rows_between lo hi xs = []"
  using assms by (simp add: rows_between_def filter_empty_conv)

lemma rows_between_all:
  assumes "int (length xs) \<le> hi"
  shows "rows_between 0 hi xs = xs"
proof -
  have "filter (\<lambda>i. 0 \<le> int i \<and> int i < hi) [0..<length xs] = [0..<length xs]"
    using assms by (simp add: filter_id_conv)
  then show ?thesis by (simp add: rows_between_def map_nth)
qed

subsection \<open>Claims\<close>

text \<open>
  C7. For every table, \<open>total_pages\<close> is the floor of the row count divided by the
  page size; the page number is bounded by 1 and \<open>total_pages + 1\<close>, the bounds given to
  the widget; the table displayed for a page \<open>p\<close> holds exactly the rows with index from
  \<open>(p - 1) * page_size\<close> up to, not including, \<open>p * page_size\<close>; and when the row count is
  a multiple of the page size, page \<open>total_pages + 1\<close> is within the bounds and displays
  no row.
\<close>

theorem show_grid_pages:
  "total_pages df = \<lfloor>real (length (rows df)) / real_of_int page_size\<rfloor>
   \<and> admissible (PyDataFrame df) p = (1 \<le> p \<and> p \<le> total_pages df + 1)
   \<and> (1 \<le> p \<longrightarrow> show_grid (PyDataFrame df) p =
        Inr \<lparr>min_value = 1, max_value = total_pages df + 1,
             displayed =
               df\<lparr>rows := rows_between ((p - 1) * page_size) (p * page_size) (rows df)\<rparr>\<rparr>)
   \<and> (int (length (rows df)) mod page_size = 0 \<longrightarrow>
        admissible (PyDataFrame df) (total_pages df + 1)
        \<and> show_grid (PyDataFrame df) (total_pages df + 1) =
            Inr \<lparr>min_value = 1, max_value = total_pages df + 1,
                 displayed = df\<lparr>rows := []\<rparr>\<rparr>)"
proof -
  have last: "show_grid (PyDataFrame df) (total_pages df + 1) =
      Inr \<lparr>min_value = 1, max_value = total_pages df + 1, displayed = df\<lparr>rows := []\<rparr>\<rparr>"
    if "int (length (rows df)) mod page_size = 0"
  proof -
    from that have "total_pages df * page_size = int (length (rows df))"
      unfolding total_pages_def by (simp add: mod_eq_0_iff_dvd)
    then have "rows_between ((total_pages df + 1 - 1) * page_size)
        ((total_pages df + 1) * page_size) (rows df) = []"
      by (simp add: rows_between_beyond)
    with show_grid_page [of "total_pages df + 1" df] total_pages_nonneg [of df]
    show ?thesis by simp
  qed
  have "admissible (PyDataFrame df) (total_pages df + 1)"
    using total_pages_nonneg [of df] by (simp add: admissible_iff)
  with last show ?thesis
    using total_pages_floor [of df] show_grid_page [of p df] admissible_iff [of df p]
    by simp
qed

theorem show_grid_pages_witness:
  "(1::int) \<le> 1
   \<and> show_grid (PyDataFrame five_rows) 1 =
       Inr \<lparr>min_value = 1, max_value = 2, displayed = five_rows\<rparr>
   \<and> int (length (rows five_rows)) mod page_size = 0
   \<and> total_pages five_rows + 1 = 2
   \<and> admissible (PyDataFrame five_rows) 2
   \<and> show_grid (PyDataFrame five_rows) 2 =
       Inr \<lparr>min_value = 1, max_value = 2, displayed = five_rows\<lparr>rows := []\<rparr>\<rparr>"
proof -
  have t: "total_pages five_rows + 1 = 2"
    by (simp add: five_rows_def total_pages_def page_size_def)
  have h: "int (length (rows five_rows)) mod page_size = 0"
    by (simp add: five_rows_def page_size_def)
  have r: "rows_between ((1 - 1) * page_size) (1 * page_size) (rows five_rows) = rows five_rows"
    by (simp add: rows_between_all five_rows_def page_size_def)
  note c = show_grid_pages [of five_rows 1]
  from c have one: "show_grid (PyDataFrame five_rows) 1 =
      Inr \<lparr>min_value = 1, max_value = 2, displayed = five_rows\<rparr>"
    unfolding r t by (simp del: show_grid.simps)
  from c h have last: "admissible (PyDataFrame five_rows) (total_pages five_rows + 1)
      \<and> show_grid (PyDataFrame five_rows) (total_pages five_rows + 1) =
          Inr \<lparr>min_value = 1, max_value = total_pages five_rows + 1,
               displayed = five_rows\<lparr>rows := []\<rparr>\<rparr>"
    by blast
  from one h t last [unfolded t] show ?thesis by simp
qed

text \<open>
  C10. For every table with fewer rows than the page size, the empty table included,
  \<open>total_pages\<close> is 0; \<^verbatim>\<open>show_grid\<close> gives the widget the bounds 1 and 1, so the only
  admissible page number is 1; and \<^verbatim>\<open>show_grid\<close> does not raise: on page 1 it displays
  the whole table.
\<close>

theorem show_grid_small_table:
  "int (length (rows df)) < page_size \<longrightarrow>
     total_pages df = 0
     \<and> admissible (PyDataFrame df) p = (p = 1)
     \<and> (\<exists>g. show_grid (PyDataFrame df) p = Inr g)
     \<and> show_grid (PyDataFrame df) 1 = Inr \<lparr>min_value = 1, max_value = 1, displayed = df\<rparr>"
proof
  assume small: "int (length (rows df)) < page_size"
  then have tp: "total_pages df = 0"
    by (simp add: total_pages_def)
  have "rows_between ((1 - 1) * page_size) (1 * page_size) (rows df) = rows df"
    using small by (simp add: rows_between_all)
  with show_grid_page [of 1 df] tp
  have "show_grid (PyDataFrame df) 1 = Inr \<lparr>min_value = 1, max_value = 1, displayed = df\<rparr>"
    by simp
  moreover have "\<exists>g. show_grid (PyDataFrame df) p = Inr g"
    by (simp add: Let_def)
  moreover have "admissible (PyDataFrame df) p = (p = 1)"
    using tp by (auto simp: admissible_iff)
  ultimately show "total_pages df = 0
     \<and> admissible (PyDataFrame df) p = (p = 1)
     \<and> (\<exists>g. show_grid (PyDataFrame df) p = Inr g)
     \<and> show_grid (PyDataFrame df) 1 = Inr \<lparr>min_value = 1, max_value = 1, displayed = df\<rparr>"
    using tp by blast
qed

theorem show_grid_small_table_witness:
  "int (length (rows two_rows)) < page_size
   \<and> total_pages two_rows = 0
   \<and> admissible (PyDataFrame two_rows) 2 = (2 = (1::int))
   \<and> (\<exists>g. show_grid (PyDataFrame two_rows) 2 = Inr g)
   \<and> show_grid (PyDataFrame two_rows) 1 =
       Inr \<lparr>min_value = 1, max_value = 1, displayed = two_rows\<rparr>"
proof -
  have h: "int (length (rows two_rows)) < page_size"
    by (simp add: two_rows_def page_size_def)
  from h show_grid_small_table [of two_rows 2] show ?thesis by blast
qed

text \<open>
  C3, as the code has it. For a table of twelve rows, pages 1, 2 and 3 display 5, 5
  and 2 rows: the first five, the next five and the last two. The bounds given to the
  widget are 1 and \<open>total_pages + 1 = 3\<close>, so page 4 is outside the bound; the slice
  that the page number 4 stands for holds no row.
\<close>

theorem show_grid_twelve_rows:
  "length (rows df) = 12 \<longrightarrow>
     show_grid (PyDataFrame df) 1 =
       Inr \<lparr>min_value = 1, max_value = 3, displayed = df\<lparr>rows := take 5 (rows df)\<rparr>\<rparr>
     \<and> show_grid (PyDataFrame df) 2 =
       Inr \<lparr>min_value = 1, max_value = 3, displayed = df\<lparr>rows := take 5 (drop 5 (rows df))\<rparr>\<rparr>
     \<and> show_grid (PyDataFrame df) 3 =
       Inr \<lparr>min_value = 1, max_value = 3, displayed = df\<lparr>rows := drop 10 (rows df)\<rparr>\<rparr>
     \<and> map (\<lambda>p. shown_rows (show_grid (PyDataFrame df) p)) [1, 2, 3, 4]
         = [Some 5, Some 5, Some 2, Some 0]
     \<and> map (admissible (PyDataFrame df)) [1, 2, 3, 4] = [True, True, True, False]"
proof
  assume n: "length (rows df) = 12"
  then have tp: "total_pages df = 2"
    by (simp add: total_pages_def page_size_def)
  have pages: "show_grid (PyDataFrame df) 1 =
       Inr \<lparr>min_value = 1, max_value = 3, displayed = df\<lparr>rows := take 5 (rows df)\<rparr>\<rparr>"
    "show_grid (PyDataFrame df) 2 =
       Inr \<lparr>min_value = 1, max_value = 3, displayed = df\<lparr>rows := take 5 (drop 5 (rows df))\<rparr>\<rparr>"
    "show_grid (PyDataFrame df) 3 =
       Inr \<lparr>min_value = 1, max_value = 3, displayed = df\<lparr>rows := drop 10 (rows df)\<rparr>\<rparr>"
    using n tp
    by (simp_all add: iloc_def py_slice_def slice_bound_def page_size_def Let_def)
  have counts: "shown_rows (show_grid (PyDataFrame df) 1) = Some 5"
    "shown_rows (show_grid (PyDataFrame df) 2) = Some 5"
    "shown_rows (show_grid (PyDataFrame df) 3) = Some 2"
    "shown_rows (show_grid (PyDataFrame df) 4) = Some 0"
    using n tp
    by (simp_all add: shown_rows_def iloc_def py_slice_def slice_bound_def page_size_def
        Let_def)
  have bounds: "map (admissible (PyDataFrame df)) [1, 2, 3, 4] = [True, True, True, False]"
    using tp by (simp add: admissible_iff)
  from pages counts bounds
  show "show_grid (PyDataFrame df) 1 =
       Inr \<lparr>min_value = 1, max_value = 3, displayed = df\<lparr>rows := take 5 (rows df)\<rparr>\<rparr>
     \<and> show_grid (PyDataFrame df) 2 =
       Inr \<lparr>min_value = 1, max_value = 3, displayed = df\<lparr>rows := take 5 (drop 5 (rows df))\<rparr>\<rparr>
     \<and> show_grid (PyDataFrame df) 3 =
       Inr \<lparr>min_value = 1, max_value = 3, displayed = df\<lparr>rows := drop 10 (rows df)\<rparr>\<rparr>
     \<and> map (\<lambda>p. shown_rows (show_grid (PyDataFrame df) p)) [1, 2, 3, 4]
         = [Some 5, Some 5, Some 2, Some 0]
     \<and> map (admissible (PyDataFrame df)) [1, 2, 3, 4] = [True, True, True, False]"
    by (simp del: show_grid.simps)
qed

theorem show_grid_twelve_rows_witness:
  "length (rows twelve_rows) = 12
   \<and> show_grid (PyDataFrame twelve_rows) 3 =
       Inr \<lparr>min_value = 1, max_value = 3,
            displayed = \<lparr>columns = [''N''], rows = [[CInt 11], [CInt 12]]\<rparr>\<rparr>
   \<and> map (\<lambda>p. shown_rows (show_grid (PyDataFrame twelve_rows) p)) [1, 2, 3, 4]
       = [Some 5, Some 5, Some 2, Some 0]
   \<and> map (admissible (PyDataFrame twelve_rows)) [1, 2, 3, 4] = [True, True, True, False]"
proof -
  have h: "length (rows twelve_rows) = 12" by (simp add: twelve_rows_def)
  have d: "twelve_rows\<lparr>rows := drop 10 (rows twelve_rows)\<rparr> =
      \<lparr>columns = [''N''], rows = [[CInt 11], [CInt 12]]\<rparr>"
    by (simp add: twelve_rows_def)
  from h show_grid_twelve_rows [of twelve_rows] show ?thesis
    unfolding d by blast
qed

theorem show_grid_page_four_counterexample:
  "total_pages twelve_rows + 1 = 3 \<and> \<not> admissible (PyDataFrame twelve_rows) 4"
  by (simp add: admissible_def twelve_rows_def total_pages_def page_size_def Let_def)

section \<open>Properties of the result cache\<close>

lemma cache_df_keeps:
  assumes "st k = Some v" and "cache_df api n d st = Inr st'"
  shows "st' k = Some v"
  using assms
  by (induction api n d st rule: cache_df.induct)
    (auto simp: handler_def split: option.splits if_splits)

lemma cache_calls_keeps:
  assumes "st k = Some v"
  shows "snd (cache_calls api cs st) k = Some v"
  using assms
proof (induction cs arbitrary: st)
  case Nil
  then show ?case by simp
next
  case (Cons c cs)
  show ?case
  proof (cases "cache_df api (fst c) (snd c) st")
    case (Inl e)
    with Cons.prems show ?thesis by simp
  next
    case (Inr st')
    with Cons.prems have "st' k = Some v" by (rule cache_df_keeps)
    with Cons.IH Inr show ?thesis by simp
  qed
qed

lemma cache_df_again:
  assumes "cache_df api (PyStr k) (PyDataFrame t1) st = Inr st'"
  shows "cache_df api (PyStr k) (PyDataFrame t2) st' = Inr st'"
  using assms by (auto simp: handler_def split: if_splits option.splits)

text \<open>
  C8, as the code has it. For a key \<open>k\<close> that the session state does not refuse, the
  result cache is write-once: when \<open>k\<close> is new, \<^verbatim>\<open>cache_df(k, t1)\<close> followed by
  \<^verbatim>\<open>cache_df(k, t2)\<close> leaves \<open>k\<close> mapped to \<open>t1\<close>. A call that follows a call that
  returned changes nothing. And once \<open>k\<close> has a value, no sequence of later
  \<^verbatim>\<open>cache_df\<close> calls, whatever their arguments, changes it.
\<close>

theorem cache_df_write_once:
  "(\<not> contains_raises api k \<and> \<not> setitem_raises api k \<and> st k = None \<longrightarrow>
      cache_calls api [(PyStr k, PyDataFrame t1), (PyStr k, PyDataFrame t2)] st
        = (None, st(k \<mapsto> PyDataFrame t1)))
   \<and> (cache_df api (PyStr k) (PyDataFrame t1) st = Inr st' \<longrightarrow>
        cache_df api (PyStr k) (PyDataFrame t2) st' = Inr st')
   \<and> (st k = Some v \<longrightarrow> snd (cache_calls api cs st) k = Some v)"
  using cache_calls_keeps [of st k v api cs] cache_df_again [of api k t1 st st' t2]
  by simp

theorem cache_df_write_once_witness:
  "\<not> contains_raises reserved_ids ''k'' \<and> \<not> setitem_raises reserved_ids ''k''
   \<and> Map.empty ''k'' = None
   \<and> cache_calls reserved_ids
        [(PyStr ''k'', PyDataFrame twelve_rows), (PyStr ''k'', PyDataFrame empty_dataframe)]
        Map.empty = (None, [''k'' \<mapsto> PyDataFrame twelve_rows])
   \<and> cache_df reserved_ids (PyStr ''k'') (PyDataFrame twelve_rows) Map.empty
       = Inr [''k'' \<mapsto> PyDataFrame twelve_rows]
   \<and> cache_df reserved_ids (PyStr ''k'') (PyDataFrame empty_dataframe)
        [''k'' \<mapsto> PyDataFrame twelve_rows] = Inr [''k'' \<mapsto> PyDataFrame twelve_rows]
   \<and> [''k'' \<mapsto> PyDataFrame twelve_rows] ''k'' = Some (PyDataFrame twelve_rows)
   \<and> snd (cache_calls reserved_ids
        [(PyStr ''k'', PyDataFrame empty_dataframe), (PyStr ''j'', PyNone),
         (PyStr ''k'', PyDataFrame empty_dataframe)]
        [''k'' \<mapsto> PyDataFrame twelve_rows]) ''k''
       = Some (PyDataFrame twelve_rows)"
  using cache_df_write_once [of reserved_ids "''k''" Map.empty twelve_rows empty_dataframe
      "[''k'' \<mapsto> PyDataFrame twelve_rows]"]
    cache_df_write_once [of reserved_ids "''k''" "[''k'' \<mapsto> PyDataFrame twelve_rows]"
      twelve_rows empty_dataframe "[''k'' \<mapsto> PyDataFrame twelve_rows]"
      "PyDataFrame twelve_rows"
      "[(PyStr ''k'', PyDataFrame empty_dataframe), (PyStr ''j'', PyNone),
        (PyStr ''k'', PyDataFrame empty_dataframe)]"]
  by (simp add: reserved_ids_def)

theorem cache_df_refused_key_counterexample:
  "cache_calls reserved_ids
     [(PyStr ''$$ID-abc-None'', PyDataFrame twelve_rows),
      (PyStr ''$$ID-abc-None'', PyDataFrame empty_dataframe)] Map.empty
   = (Some (NameError ''name 'logging' is not defined''), Map.empty)"
  by (simp add: reserved_ids_def handler_def)

end
